theory Spec2Isabelle
  imports
    Complex_Main
    "HOL-Library.Product_Lexorder"
    "HOL-Library.List_Lexorder"
    "HOL-Library.Char_ord"
    "HOL-Library.Multiset"
    "HOL-Library.Sublist"
begin

section \<open>ABC/XYZ inventory classification: the model of \<^verbatim>\<open>abc_rep_clean.py\<close>\<close>

text \<open>
  The script is straight-line code over pandas tables. A table is modelled as a list of
  rows (a record per row) or as a list per column; every statement of the script that
  computes a column becomes one definition below, in the order of the script.

  Numbers: a pandas float column holds IEEE 754 doubles. Their comparisons are exact, and
  a division by zero does not raise but yields an infinity or NaN; both are modelled as
  they are. The rounding of a finite result and the sign of zero are outside the model:
  finite sums and quotients are exact. A sum that leaves the range of doubles becomes an
  infinity; the columns of the ABC step are given a second time with this overflow, and
  the two agree whenever the total is finite. A numeric column is taken to be a column
  of doubles; a column that pandas reads as 64-bit integers behaves the same as long as
  its sums stay below \<^verbatim>\<open>2^63\<close>.
\<close>

subsection \<open>Float values with NaN and the infinities\<close>

datatype pyfloat = Fin real | PInf | NInf | NaN

text \<open>\<^verbatim>\<open>x <= y\<close> and \<^verbatim>\<open>x < y\<close> on floats: every comparison with NaN is false.\<close>

fun pf_le :: "pyfloat \<Rightarrow> pyfloat \<Rightarrow> bool" where
  "pf_le NaN _ = False"
| "pf_le _ NaN = False"
| "pf_le NInf _ = True"
| "pf_le _ PInf = True"
| "pf_le (Fin a) (Fin b) = (a \<le> b)"
| "pf_le PInf _ = False"
| "pf_le _ NInf = False"

fun pf_lt :: "pyfloat \<Rightarrow> pyfloat \<Rightarrow> bool" where
  "pf_lt NaN _ = False"
| "pf_lt _ NaN = False"
| "pf_lt (Fin a) (Fin b) = (a < b)"
| "pf_lt PInf _ = False"
| "pf_lt _ NInf = False"
| "pf_lt NInf _ = True"
| "pf_lt _ PInf = True"

text \<open>
  Element-wise division of two float columns (numpy): \<^verbatim>\<open>x / 0\<close> is an infinity with
  the sign of \<^verbatim>\<open>x\<close>, \<^verbatim>\<open>0 / 0\<close> is NaN, and NaN propagates. No exception is
  raised.
\<close>

fun pf_div :: "pyfloat \<Rightarrow> pyfloat \<Rightarrow> pyfloat" where
  "pf_div NaN _ = NaN"
| "pf_div _ NaN = NaN"
| "pf_div (Fin a) (Fin b) =
     (if b \<noteq> 0 then Fin (a / b)
      else if 0 < a then PInf else if a < 0 then NInf else NaN)"
| "pf_div (Fin a) _ = Fin 0"
| "pf_div PInf (Fin b) = (if b < 0 then NInf else PInf)"
| "pf_div NInf (Fin b) = (if b < 0 then PInf else NInf)"
| "pf_div _ _ = NaN"

text \<open>\<^verbatim>\<open>.replace(0, np.nan)\<close> and \<^verbatim>\<open>.fillna(0)\<close> on one value.\<close>

fun replace0 :: "pyfloat \<Rightarrow> pyfloat" where
  "replace0 (Fin a) = (if a = 0 then NaN else Fin a)"
| "replace0 x = x"

fun fillna0 :: "pyfloat \<Rightarrow> pyfloat" where
  "fillna0 NaN = Fin 0"
| "fillna0 x = x"

subsection \<open>Required columns and the category column (lines 29 to 40)\<close>

datatype error = MissingColumns | DateParseError

definition required_cols :: "string list" where
  "required_cols = [''item_id'', ''description'', ''sales'', ''qty'', ''date'']"

text \<open>\<^verbatim>\<open>if not required_cols.issubset(df.columns): st.error(...); st.stop()\<close>\<close>

definition check_required_cols :: "string list \<Rightarrow> error + unit" where
  "check_required_cols columns =
     (if set required_cols \<subseteq> set columns then Inr () else Inl MissingColumns)"

definition category_candidates :: "string list" where
  "category_candidates = [''category'', ''Category'', ''group'', ''Group'', ''description'']"

text \<open>
  The loop over the candidates assigns the first one that is a column and breaks;
  \<^verbatim>\<open>category_col\<close> stays \<^verbatim>\<open>None\<close> when there is none.
\<close>

definition category_col :: "string list \<Rightarrow> string option" where
  "category_col columns = find (\<lambda>col. col \<in> set columns) category_candidates"

text \<open>\<^verbatim>\<open>if category_col:\<close> is the truth value of an optional string.\<close>

definition category_filter_offered :: "string list \<Rightarrow> bool" where
  "category_filter_offered columns =
     (case category_col columns of None \<Rightarrow> False | Some c \<Rightarrow> c \<noteq> [])"

subsection \<open>Data cleaning (lines 42 to 45)\<close>

text \<open>
  A raw cell is empty, holds text that does not parse, or holds a value. A date is
  year, month, day. The columns other than the five required ones are kept by name.
\<close>

datatype 'a cell = Missing | Unparsable | Parsed 'a

type_synonym date = "int \<times> nat \<times> nat"
type_synonym month = "int \<times> nat"

record 'i raw_row =
  raw_item_id :: "'i option"
  raw_description :: "string option"
  raw_sales :: "real cell"
  raw_qty :: "real cell"
  raw_date :: "date cell"
  raw_other :: "string \<Rightarrow> string option"

record 'i txn =
  item_id :: "'i option"
  description :: "string option"
  sales :: real
  qty :: real
  date :: "date option"
  other :: "string \<Rightarrow> string option"

text \<open>
  \<^verbatim>\<open>pd.to_datetime\<close> parses the whole column: an empty cell becomes NaT (here
  \<open>None\<close>), a cell that does not parse raises and ends the run.
\<close>

fun to_datetime :: "date cell \<Rightarrow> error + date option" where
  "to_datetime Missing = Inr None"
| "to_datetime Unparsable = Inl DateParseError"
| "to_datetime (Parsed d) = Inr (Some d)"

text \<open>\<^verbatim>\<open>pd.to_numeric(..., errors="coerce").fillna(0)\<close>\<close>

fun to_numeric_fillna0 :: "real cell \<Rightarrow> real" where
  "to_numeric_fillna0 (Parsed v) = v"
| "to_numeric_fillna0 _ = 0"

fun clean :: "'i raw_row list \<Rightarrow> error + 'i txn list" where
  "clean [] = Inr []"
| "clean (r # rs) =
     (case to_datetime (raw_date r) of
        Inl e \<Rightarrow> Inl e
      | Inr d \<Rightarrow>
          (case clean rs of
             Inl e \<Rightarrow> Inl e
           | Inr df \<Rightarrow>
               Inr (\<lparr>item_id = raw_item_id r, description = raw_description r,
                     sales = to_numeric_fillna0 (raw_sales r),
                     qty = to_numeric_fillna0 (raw_qty r),
                     date = d, other = raw_other r\<rparr> # df)))"

subsection \<open>Category filter (lines 47 to 52)\<close>

definition column_value :: "string \<Rightarrow> 'i txn \<Rightarrow> string option" where
  "column_value col r = (if col = ''description'' then description r else other r col)"

definition category_filter :: "string list \<Rightarrow> string \<Rightarrow> 'i txn list \<Rightarrow> 'i txn list" where
  "category_filter columns selected_cat df =
     (case category_col columns of
        None \<Rightarrow> df
      | Some c \<Rightarrow>
          if c \<noteq> [] \<and> selected_cat \<noteq> ''All''
          then filter (\<lambda>r. column_value c r = Some selected_cat) df
          else df)"

subsection \<open>ABC classification (lines 54 to 58)\<close>

record 'i agg_row =
  agg_item_id :: 'i
  agg_description :: string
  agg_sales :: real
  agg_qty :: real

text \<open>
  \<^verbatim>\<open>df.groupby(["item_id", "description"])\<close>: one group per distinct key pair, in
  sorted key order; a row with a missing key is dropped.
\<close>

definition group_key :: "'i txn \<Rightarrow> ('i \<times> string) option" where
  "group_key r =
     (case item_id r of
        None \<Rightarrow> None
      | Some i \<Rightarrow> (case description r of None \<Rightarrow> None | Some d \<Rightarrow> Some (i, d)))"

definition group_keys :: "('i::linorder) txn list \<Rightarrow> ('i \<times> string) list" where
  "group_keys df = sort (remdups (List.map_filter group_key df))"

definition groupby_sum :: "('i::linorder) txn list \<Rightarrow> 'i agg_row list" where
  "groupby_sum df =
     map (\<lambda>k. \<lparr>agg_item_id = fst k, agg_description = snd k,
                agg_sales = sum_list (map sales (filter (\<lambda>r. group_key r = Some k) df)),
                agg_qty = sum_list (map qty (filter (\<lambda>r. group_key r = Some k) df))\<rparr>)
         (group_keys df)"

text \<open>
  \<^verbatim>\<open>agg.sort_values(by="sales", ascending=False)\<close> is called with the default sorting
  algorithm, for which pandas promises a rearrangement of the rows in non-increasing
  order of the key and nothing about rows with equal keys. The properties below that
  depend on the sorted table assume this much of it and no more, so they hold for
  whichever order of equal keys the library returns.
\<close>

definition sort_values_result :: "'i agg_row list \<Rightarrow> 'i agg_row list \<Rightarrow> bool" where
  "sort_values_result agg sorted_agg \<longleftrightarrow>
     mset sorted_agg = mset agg \<and>
     sorted_wrt (\<lambda>a b. agg_sales b \<le> agg_sales a) sorted_agg"

fun cumsum_from :: "real \<Rightarrow> real list \<Rightarrow> real list" where
  "cumsum_from acc [] = []"
| "cumsum_from acc (x # xs) = (acc + x) # cumsum_from (acc + x) xs"

definition cumsum :: "real list \<Rightarrow> real list" where
  "cumsum xs = cumsum_from 0 xs"

text \<open>\<^verbatim>\<open>agg["cum_pct"] = agg["sales"].cumsum() / agg["sales"].sum()\<close>\<close>

definition cum_pct_col :: "'i agg_row list \<Rightarrow> pyfloat list" where
  "cum_pct_col agg =
     map (\<lambda>c. pf_div (Fin c) (Fin (sum_list (map agg_sales agg))))
         (cumsum (map agg_sales agg))"

text \<open>\<^verbatim>\<open>lambda x: "A" if x <= 0.7 else ("B" if x <= 0.9 else "C")\<close>\<close>

definition abc_label :: "pyfloat \<Rightarrow> string" where
  "abc_label x =
     (if pf_le x (Fin 0.7) then ''A'' else (if pf_le x (Fin 0.9) then ''B'' else ''C''))"

definition ABC_col :: "'i agg_row list \<Rightarrow> string list" where
  "ABC_col agg = map abc_label (cum_pct_col agg)"

subsection \<open>The ABC columns in the range of doubles\<close>

text \<open>
  The largest double is just below \<^verbatim>\<open>2^1024\<close>; an exact result of magnitude
  \<^verbatim>\<open>2^1024 - 2^970\<close> or more rounds to an infinity. Below that bound the result is
  kept exact.
\<close>

definition f64_overflow :: real where
  "f64_overflow = 2 ^ 1024 - 2 ^ 970"

definition f64 :: "real \<Rightarrow> pyfloat" where
  "f64 x = (if f64_overflow \<le> x then PInf else if x \<le> - f64_overflow then NInf else Fin x)"

text \<open>
  Addition of two floats: NaN propagates, infinities of opposite sign give NaN, and
  a finite sum may overflow.
\<close>

fun pf_add :: "pyfloat \<Rightarrow> pyfloat \<Rightarrow> pyfloat" where
  "pf_add NaN _ = NaN"
| "pf_add _ NaN = NaN"
| "pf_add (Fin a) (Fin b) = f64 (a + b)"
| "pf_add PInf NInf = NaN"
| "pf_add NInf PInf = NaN"
| "pf_add PInf _ = PInf"
| "pf_add _ PInf = PInf"
| "pf_add NInf _ = NInf"
| "pf_add _ NInf = NInf"

text \<open>
  \<^verbatim>\<open>agg["sales"].cumsum()\<close> and \<^verbatim>\<open>agg["sales"].sum()\<close> as running float sums from
  the first row to the last, and the column of line 57 computed from them.
\<close>

fun cumsum_f64_from :: "pyfloat \<Rightarrow> real list \<Rightarrow> pyfloat list" where
  "cumsum_f64_from acc [] = []"
| "cumsum_f64_from acc (x # xs) = pf_add acc (Fin x) # cumsum_f64_from (pf_add acc (Fin x)) xs"

definition cumsum_f64 :: "real list \<Rightarrow> pyfloat list" where
  "cumsum_f64 xs = cumsum_f64_from (Fin 0) xs"

definition sum_f64 :: "real list \<Rightarrow> pyfloat" where
  "sum_f64 xs = foldl (\<lambda>acc x. pf_add acc (Fin x)) (Fin 0) xs"

definition cum_pct_col_f64 :: "'i agg_row list \<Rightarrow> pyfloat list" where
  "cum_pct_col_f64 agg =
     map (\<lambda>c. pf_div c (sum_f64 (map agg_sales agg))) (cumsum_f64 (map agg_sales agg))"


subsection \<open>XYZ classification (lines 60 to 67)\<close>

definition month_end :: "date \<Rightarrow> month" where
  "month_end d = (fst d, fst (snd d))"

text \<open>
  \<^verbatim>\<open>df.groupby(["item_id", pd.Grouper(key="date", freq="ME")])["qty"].sum()\<close>: one
  entry per item and calendar month that has a row; a row whose item or date is missing
  is dropped. The month of a date stands for the month-end label of its bin. A table
  that has rows but no date at all gives the grouper no range to bin; the model treats
  it like the table without rows.
\<close>

definition monthly_key :: "'i txn \<Rightarrow> ('i \<times> month) option" where
  "monthly_key r =
     (case item_id r of
        None \<Rightarrow> None
      | Some i \<Rightarrow> (case date r of None \<Rightarrow> None | Some d \<Rightarrow> Some (i, month_end d)))"

definition monthly_qty :: "('i::linorder) txn list \<Rightarrow> (('i \<times> month) \<times> real) list" where
  "monthly_qty df =
     map (\<lambda>k. (k, sum_list (map qty (filter (\<lambda>r. monthly_key r = Some k) df))))
         (sort (remdups (List.map_filter monthly_key df)))"

text \<open>
  \<^verbatim>\<open>monthly_qty.pivot(index="item_id", columns="date", values="qty").fillna(0)\<close>: a
  row per item, a column per month that occurs for any item, and 0 where the item has no
  entry for the month.
\<close>

definition pivot_index :: "(('i::linorder \<times> month) \<times> real) list \<Rightarrow> 'i list" where
  "pivot_index mq = sort (remdups (map (\<lambda>e. fst (fst e)) mq))"

definition pivot_columns :: "(('i \<times> month) \<times> real) list \<Rightarrow> month list" where
  "pivot_columns mq = sort (remdups (map (\<lambda>e. snd (fst e)) mq))"

definition pivot_row :: "(('i \<times> month) \<times> real) list \<Rightarrow> 'i \<Rightarrow> real list" where
  "pivot_row mq i =
     map (\<lambda>m. case map_of mq (i, m) of None \<Rightarrow> 0 | Some q \<Rightarrow> q) (pivot_columns mq)"

text \<open>Row mean, and row standard deviation with pandas' default \<^verbatim>\<open>ddof=1\<close>.\<close>

definition mean :: "real list \<Rightarrow> pyfloat" where
  "mean xs = (if xs = [] then NaN else Fin (sum_list xs / real (length xs)))"

definition std :: "real list \<Rightarrow> pyfloat" where
  "std xs =
     (if length xs \<le> 1 then NaN
      else Fin (sqrt (sum_list (map (\<lambda>x. (x - sum_list xs / real (length xs))\<^sup>2) xs)
                      / real (length xs - 1))))"

text \<open>
  \<^verbatim>\<open>cv = pivot.std(axis=1) / (pivot.mean(axis=1).replace(0, np.nan))\<close> followed by
  \<^verbatim>\<open>cv = cv.fillna(0)\<close>, for one row of the pivot.
\<close>

definition cv_of_row :: "real list \<Rightarrow> pyfloat" where
  "cv_of_row xs = fillna0 (pf_div (std xs) (replace0 (mean xs)))"

definition cv_series :: "('i::linorder) txn list \<Rightarrow> ('i \<times> pyfloat) list" where
  "cv_series df =
     (let mq = monthly_qty df in map (\<lambda>i. (i, cv_of_row (pivot_row mq i))) (pivot_index mq))"

text \<open>
  \<^verbatim>\<open>agg.join(cv.rename("CV"), on="item_id")\<close> is a left join: an item that is not in
  the index of \<^verbatim>\<open>cv\<close> gets NaN. The join comes after the \<^verbatim>\<open>fillna(0)\<close>.
\<close>

definition join_CV :: "('i \<times> pyfloat) list \<Rightarrow> 'i \<Rightarrow> pyfloat" where
  "join_CV cv i = (case map_of cv i of None \<Rightarrow> NaN | Some v \<Rightarrow> v)"

text \<open>\<^verbatim>\<open>lambda c: "X" if c <= 0.5 else ("Y" if c <= 1.0 else "Z")\<close>\<close>

definition xyz_label :: "pyfloat \<Rightarrow> string" where
  "xyz_label c =
     (if pf_le c (Fin 0.5) then ''X'' else (if pf_le c (Fin 1.0) then ''Y'' else ''Z''))"

subsection \<open>The classified table\<close>

record 'i row =
  row_item_id :: 'i
  row_description :: string
  row_sales :: real
  row_qty :: real
  cum_pct :: pyfloat
  ABC :: string
  CV :: pyfloat
  XYZ :: string
  ABC_XYZ :: string

text \<open>
  Lines 57 to 67 on the sorted aggregate table \<open>agg\<close>; \<open>df\<close> is the table of
  transactions the aggregate was computed from. For an aggregate table without rows the
  two label columns are empty columns of numbers and line 67 raises on concatenating
  them with a string; \<open>classify\<close> gives the empty table there, so the properties of
  its rows say nothing about that case.
\<close>

definition classify_row :: "('i \<times> pyfloat) list \<Rightarrow> 'i agg_row \<Rightarrow> pyfloat \<Rightarrow> 'i row" where
  "classify_row cv g cp =
     \<lparr>row_item_id = agg_item_id g, row_description = agg_description g,
      row_sales = agg_sales g, row_qty = agg_qty g,
      cum_pct = cp, ABC = abc_label cp,
      CV = join_CV cv (agg_item_id g), XYZ = xyz_label (join_CV cv (agg_item_id g)),
      ABC_XYZ = abc_label cp @ ''/'' @ xyz_label (join_CV cv (agg_item_id g))\<rparr>"

definition classify :: "('i::linorder) txn list \<Rightarrow> 'i agg_row list \<Rightarrow> 'i row list" where
  "classify df agg = map2 (classify_row (cv_series df)) agg (cum_pct_col agg)"

subsection \<open>Segment filter and replenishment advice (lines 69 to 88)\<close>

text \<open>\<^verbatim>\<open>filtered_agg = agg[agg["ABC_XYZ"].isin(selected_abcxyz)]\<close>\<close>

definition segment_filter :: "string list \<Rightarrow> 'i row list \<Rightarrow> 'i row list" where
  "segment_filter selected_abcxyz t = filter (\<lambda>r. ABC_XYZ r \<in> set selected_abcxyz) t"

definition all_segments :: "string list" where
  "all_segments =
     [''A/X'', ''A/Y'', ''A/Z'', ''B/X'', ''B/Y'', ''B/Z'', ''C/X'', ''C/Y'', ''C/Z'']"

definition replenishment_rules :: "(string \<times> string) list" where
  "replenishment_rules =
     [(''A/X'', ''Reorder weekly with tight safety stock control.''),
      (''A/Y'', ''Reorder bi-weekly using smoothed demand forecast.''),
      (''A/Z'', ''Manual review monthly with cautious reorder quantity.''),
      (''B/X'', ''Reorder bi-weekly with fixed reorder point.''),
      (''B/Y'', ''Monitor monthly; reorder with buffer stock.''),
      (''B/Z'', ''Review quarterly with manual override.''),
      (''C/X'', ''Low-priority reorder, maintain minimum stock.''),
      (''C/Y'', ''Replenish only with demand signal.''),
      (''C/Z'', ''Do not replenish unless justified by exception.'')]"

text \<open>
  \<^verbatim>\<open>Series.map(replenishment_rules)\<close> looks every value up in the dict; a value that
  is not a key maps to the missing value NaN (here \<open>None\<close>). It does not raise.
\<close>

definition policy_resolver :: "string \<Rightarrow> string option" where
  "policy_resolver segment = map_of replenishment_rules segment"

definition Replenishment_Advice_col :: "'i row list \<Rightarrow> string option list" where
  "Replenishment_Advice_col t = map (\<lambda>r. policy_resolver (ABC_XYZ r)) t"

subsection \<open>Example tables\<close>

text \<open>
  Three items sold in one month, with sales 700, 200 and 100 and quantity 10 each, and
  their aggregate table in descending order of sales.
\<close>

definition scenario_df :: "string txn list" where
  "scenario_df =
     [\<lparr>item_id = Some ''P1'', description = Some ''bolt'', sales = 700, qty = 10,
       date = Some (2024, 3, 5), other = (\<lambda>_. None)\<rparr>,
      \<lparr>item_id = Some ''P2'', description = Some ''nut'', sales = 200, qty = 10,
       date = Some (2024, 3, 9), other = (\<lambda>_. None)\<rparr>,
      \<lparr>item_id = Some ''P3'', description = Some ''washer'', sales = 100, qty = 10,
       date = Some (2024, 3, 20), other = (\<lambda>_. None)\<rparr>]"

definition scenario_agg :: "string agg_row list" where
  "scenario_agg =
     [\<lparr>agg_item_id = ''P1'', agg_description = ''bolt'', agg_sales = 700, agg_qty = 10\<rparr>,
      \<lparr>agg_item_id = ''P2'', agg_description = ''nut'', agg_sales = 200, agg_qty = 10\<rparr>,
      \<lparr>agg_item_id = ''P3'', agg_description = ''washer'', agg_sales = 100, agg_qty = 10\<rparr>]"

definition columns_with_group :: "string list" where
  "columns_with_group = [''item_id'', ''Group'', ''description'', ''sales'', ''qty'', ''date'']"

text \<open>
  Two items, one of them with negative sales (returns exceed sales), as raw rows, after
  cleaning, and aggregated in descending order of sales.
\<close>

definition returns_raw :: "string raw_row list" where
  "returns_raw =
     [\<lparr>raw_item_id = Some ''P1'', raw_description = Some ''bolt'', raw_sales = Parsed 10,
       raw_qty = Parsed 1, raw_date = Parsed (2024, 3, 5), raw_other = (\<lambda>_. None)\<rparr>,
      \<lparr>raw_item_id = Some ''P2'', raw_description = Some ''nut'', raw_sales = Parsed (- 5),
       raw_qty = Parsed (- 1), raw_date = Parsed (2024, 3, 9), raw_other = (\<lambda>_. None)\<rparr>]"

definition returns_df :: "string txn list" where
  "returns_df =
     [\<lparr>item_id = Some ''P1'', description = Some ''bolt'', sales = 10, qty = 1,
       date = Some (2024, 3, 5), other = (\<lambda>_. None)\<rparr>,
      \<lparr>item_id = Some ''P2'', description = Some ''nut'', sales = - 5, qty = - 1,
       date = Some (2024, 3, 9), other = (\<lambda>_. None)\<rparr>]"

definition returns_agg :: "string agg_row list" where
  "returns_agg =
     [\<lparr>agg_item_id = ''P1'', agg_description = ''bolt'', agg_sales = 10, agg_qty = 1\<rparr>,
      \<lparr>agg_item_id = ''P2'', agg_description = ''nut'', agg_sales = - 5, agg_qty = - 1\<rparr>]"

text \<open>
  Two items whose sales are all zero; one sales cell does not parse and is coerced to 0.
\<close>

definition zero_raw :: "string raw_row list" where
  "zero_raw =
     [\<lparr>raw_item_id = Some ''P1'', raw_description = Some ''bolt'', raw_sales = Parsed 0,
       raw_qty = Parsed 4, raw_date = Parsed (2024, 3, 5), raw_other = (\<lambda>_. None)\<rparr>,
      \<lparr>raw_item_id = Some ''P2'', raw_description = Some ''nut'', raw_sales = Unparsable,
       raw_qty = Parsed 2, raw_date = Parsed (2024, 4, 9), raw_other = (\<lambda>_. None)\<rparr>]"

definition zero_df :: "string txn list" where
  "zero_df =
     [\<lparr>item_id = Some ''P1'', description = Some ''bolt'', sales = 0, qty = 4,
       date = Some (2024, 3, 5), other = (\<lambda>_. None)\<rparr>,
      \<lparr>item_id = Some ''P2'', description = Some ''nut'', sales = 0, qty = 2,
       date = Some (2024, 4, 9), other = (\<lambda>_. None)\<rparr>]"

definition zero_agg :: "string agg_row list" where
  "zero_agg =
     [\<lparr>agg_item_id = ''P1'', agg_description = ''bolt'', agg_sales = 0, agg_qty = 4\<rparr>,
      \<lparr>agg_item_id = ''P2'', agg_description = ''nut'', agg_sales = 0, agg_qty = 2\<rparr>]"

text \<open>
  Two items, the first with an empty date cell in its only row.
\<close>

definition undated_raw :: "string raw_row list" where
  "undated_raw =
     [\<lparr>raw_item_id = Some ''P1'', raw_description = Some ''bolt'', raw_sales = Parsed 10,
       raw_qty = Parsed 5, raw_date = Missing, raw_other = (\<lambda>_. None)\<rparr>,
      \<lparr>raw_item_id = Some ''P2'', raw_description = Some ''nut'', raw_sales = Parsed 20,
       raw_qty = Parsed 5, raw_date = Parsed (2024, 1, 15), raw_other = (\<lambda>_. None)\<rparr>]"

definition undated_df :: "string txn list" where
  "undated_df =
     [\<lparr>item_id = Some ''P1'', description = Some ''bolt'', sales = 10, qty = 5,
       date = None, other = (\<lambda>_. None)\<rparr>,
      \<lparr>item_id = Some ''P2'', description = Some ''nut'', sales = 20, qty = 5,
       date = Some (2024, 1, 15), other = (\<lambda>_. None)\<rparr>]"

definition undated_agg :: "string agg_row list" where
  "undated_agg =
     [\<lparr>agg_item_id = ''P2'', agg_description = ''nut'', agg_sales = 20, agg_qty = 5\<rparr>,
      \<lparr>agg_item_id = ''P1'', agg_description = ''bolt'', agg_sales = 10, agg_qty = 5\<rparr>]"

text \<open>
  Two items over two months: P1 sells 10 units in each month, P2 sells 10 units in the
  first month and has no row in the second. Raw rows, cleaned rows and the aggregate
  table in descending order of sales.
\<close>

definition steady_raw :: "string raw_row list" where
  "steady_raw =
     [\<lparr>raw_item_id = Some ''P1'', raw_description = Some ''bolt'', raw_sales = Parsed 30,
       raw_qty = Parsed 4, raw_date = Parsed (2024, 3, 5), raw_other = (\<lambda>_. None)\<rparr>,
      \<lparr>raw_item_id = Some ''P2'', raw_description = Some ''nut'', raw_sales = Parsed 50,
       raw_qty = Parsed 10, raw_date = Parsed (2024, 3, 9), raw_other = (\<lambda>_. None)\<rparr>,
      \<lparr>raw_item_id = Some ''P1'', raw_description = Some ''bolt'', raw_sales = Parsed 30,
       raw_qty = Parsed 6, raw_date = Parsed (2024, 3, 20), raw_other = (\<lambda>_. None)\<rparr>,
      \<lparr>raw_item_id = Some ''P1'', raw_description = Some ''bolt'', raw_sales = Parsed 40,
       raw_qty = Parsed 10, raw_date = Parsed (2024, 4, 2), raw_other = (\<lambda>_. None)\<rparr>]"

definition steady_df :: "string txn list" where
  "steady_df =
     [\<lparr>item_id = Some ''P1'', description = Some ''bolt'', sales = 30, qty = 4,
       date = Some (2024, 3, 5), other = (\<lambda>_. None)\<rparr>,
      \<lparr>item_id = Some ''P2'', description = Some ''nut'', sales = 50, qty = 10,
       date = Some (2024, 3, 9), other = (\<lambda>_. None)\<rparr>,
      \<lparr>item_id = Some ''P1'', description = Some ''bolt'', sales = 30, qty = 6,
       date = Some (2024, 3, 20), other = (\<lambda>_. None)\<rparr>,
      \<lparr>item_id = Some ''P1'', description = Some ''bolt'', sales = 40, qty = 10,
       date = Some (2024, 4, 2), other = (\<lambda>_. None)\<rparr>]"

definition steady_agg :: "string agg_row list" where
  "steady_agg =
     [\<lparr>agg_item_id = ''P1'', agg_description = ''bolt'', agg_sales = 100, agg_qty = 20\<rparr>,
      \<lparr>agg_item_id = ''P2'', agg_description = ''nut'', agg_sales = 50, agg_qty = 10\<rparr>]"

text \<open>
  Three items with sales of 1e308, 9e307 and 8e307: each amount is a double, the sum of
  the first two is not.
\<close>

definition one_e308 :: real where
  "one_e308 = 10 ^ 308"




section \<open>Properties\<close>

subsection \<open>The policy table\<close>

lemma rules_keys: "map fst replenishment_rules = all_segments"
  by (simp add: replenishment_rules_def all_segments_def)

lemma dom_rules: "dom (map_of replenishment_rules) = set all_segments"
  by (simp only: dom_map_of_conv_image_fst rules_keys [symmetric] set_map)

text \<open>
  Claim C4. For each of the nine segments A/X, ..., C/Z the lookup in the replenishment
  table returns the advice text of the fixed nine-entry policy table, character by
  character.
\<close>

theorem policy_resolver_table:
  "policy_resolver ''A/X'' = Some ''Reorder weekly with tight safety stock control.'' \<and>
   policy_resolver ''A/Y'' = Some ''Reorder bi-weekly using smoothed demand forecast.'' \<and>
   policy_resolver ''A/Z'' = Some ''Manual review monthly with cautious reorder quantity.'' \<and>
   policy_resolver ''B/X'' = Some ''Reorder bi-weekly with fixed reorder point.'' \<and>
   policy_resolver ''B/Y'' = Some ''Monitor monthly; reorder with buffer stock.'' \<and>
   policy_resolver ''B/Z'' = Some ''Review quarterly with manual override.'' \<and>
   policy_resolver ''C/X'' = Some ''Low-priority reorder, maintain minimum stock.'' \<and>
   policy_resolver ''C/Y'' = Some ''Replenish only with demand signal.'' \<and>
   policy_resolver ''C/Z'' = Some ''Do not replenish unless justified by exception.''"
  by (simp add: policy_resolver_def replenishment_rules_def)

text \<open>
  Claim C7, as stated: a segment value outside the nine valid ones makes the lookup fail
  with an error instead of returning a default or a missing advice value. The lookup is
  \<^verbatim>\<open>Series.map\<close> with a dict and has no failing outcome: for the value \<^verbatim>\<open>D/X\<close>,
  which is not a segment, it returns the missing value.
\<close>

theorem policy_resolver_unknown_returns_missing:
  "''D/X'' \<notin> set all_segments \<and> policy_resolver ''D/X'' = None"
  by (simp add: policy_resolver_def replenishment_rules_def all_segments_def)

text \<open>
  Claim C7, amended: for every value that is not one of the nine segments the lookup
  returns the missing advice value and raises nothing; for each of the nine segments it
  returns an advice text.
\<close>

theorem policy_resolver_lookup:
  "(segment \<notin> set all_segments \<longrightarrow> policy_resolver segment = None) \<and>
   (segment \<in> set all_segments \<longrightarrow> (\<exists>advice. policy_resolver segment = Some advice))"
  unfolding policy_resolver_def using dom_rules by (auto simp: domIff)

theorem policy_resolver_lookup_witness:
  "policy_resolver ''Q/Q'' = None \<and> (\<exists>advice. policy_resolver ''B/Y'' = Some advice)"
  using policy_resolver_lookup [of "''Q/Q''"] policy_resolver_lookup [of "''B/Y''"]
  by (simp add: all_segments_def)

subsection \<open>The category column\<close>

text \<open>
  Claim C10. When the table has the five required columns, the search for the category
  column succeeds: \<^verbatim>\<open>description\<close> is required and is the last candidate. The column
  found is a column of the table, the category filter is offered, and every candidate
  before the one found is not a column of the table.
\<close>

theorem category_col_resolved:
  assumes "check_required_cols columns = Inr ()"
  shows "\<exists>c. category_col columns = Some c \<and> c \<in> set columns \<and>
             category_filter_offered columns \<and>
             (\<exists>pre post. category_candidates = pre @ c # post \<and>
                         (\<forall>x\<in>set pre. x \<notin> set columns))"
proof -
  from assms have "set required_cols \<subseteq> set columns"
    by (simp add: check_required_cols_def split: if_splits)
  then have d: "''description'' \<in> set columns"
    by (auto simp: required_cols_def)
  have "\<exists>c. find (\<lambda>col. col \<in> set columns) category_candidates = Some c"
  proof (cases "find (\<lambda>col. col \<in> set columns) category_candidates")
    case None
    then have "\<forall>x\<in>set category_candidates. x \<notin> set columns"
      by (simp add: find_None_iff)
    with d show ?thesis by (simp add: category_candidates_def)
  next
    case (Some c)
    then show ?thesis by blast
  qed
  then obtain c where c: "category_col columns = Some c"
    by (auto simp: category_col_def)
  then obtain i where i: "i < length category_candidates"
      "category_candidates ! i \<in> set columns"
      "c = category_candidates ! i" "\<forall>j<i. category_candidates ! j \<notin> set columns"
    unfolding category_col_def find_Some_iff by blast
  have "c \<in> set category_candidates" using i by simp
  then have ne: "c \<noteq> []" by (auto simp: category_candidates_def)
  have split: "category_candidates =
      take i category_candidates @ c # drop (Suc i) category_candidates"
    using i by (simp add: id_take_nth_drop)
  have pre: "\<forall>x\<in>set (take i category_candidates). x \<notin> set columns"
  proof
    fix x assume "x \<in> set (take i category_candidates)"
    then obtain j where "j < i" "x = category_candidates ! j"
      using i(1) by (auto simp: in_set_conv_nth)
    with i(4) show "x \<notin> set columns" by simp
  qed
  from c i(2,3) ne split pre show ?thesis
    unfolding category_filter_offered_def by (intro exI [of _ c]) auto
qed

theorem category_col_resolved_witness:
  "check_required_cols columns_with_group = Inr () \<and>
   category_col columns_with_group = Some ''Group'' \<and>
   category_filter_offered columns_with_group"
  using category_col_resolved [of columns_with_group]
  by (simp add: check_required_cols_def required_cols_def category_col_def
      category_candidates_def columns_with_group_def category_filter_offered_def)

subsection \<open>Evaluating the example tables\<close>

lemmas groupby_eval = groupby_sum_def group_keys_def group_key_def

lemmas monthly_eval = monthly_qty_def monthly_key_def month_end_def
lemmas cv_eval = cv_series_def pivot_index_def pivot_row_def pivot_columns_def
  cv_of_row_def std_def mean_def


lemma scenario_cum_pct: "cum_pct_col scenario_agg = [Fin 0.7, Fin 0.9, Fin 1]"
  by (simp add: cum_pct_col_def cumsum_def scenario_agg_def)

lemma scenario_monthly:
  "monthly_qty scenario_df =
     [((''P1'', (2024, 3)), 10), ((''P2'', (2024, 3)), 10), ((''P3'', (2024, 3)), 10)]"
  by (simp add: monthly_eval scenario_df_def)

lemma scenario_cv: "cv_series scenario_df = [(''P1'', Fin 0), (''P2'', Fin 0), (''P3'', Fin 0)]"
  by (simp add: cv_eval scenario_monthly)

lemma returns_groupby: "groupby_sum returns_df = returns_agg"
  by (simp add: groupby_eval returns_df_def returns_agg_def)

lemma zero_groupby: "groupby_sum zero_df = zero_agg"
  by (simp add: groupby_eval zero_df_def zero_agg_def)

lemma undated_groupby:
  "groupby_sum undated_df =
     [\<lparr>agg_item_id = ''P1'', agg_description = ''bolt'', agg_sales = 10, agg_qty = 5\<rparr>,
      \<lparr>agg_item_id = ''P2'', agg_description = ''nut'', agg_sales = 20, agg_qty = 5\<rparr>]"
  by (simp add: groupby_eval undated_df_def)

lemma undated_monthly: "monthly_qty undated_df = [((''P2'', (2024, 1)), 5)]"
  by (simp add: monthly_eval undated_df_def)

lemma undated_cv: "cv_series undated_df = [(''P2'', Fin 0)]"
  by (simp add: cv_eval undated_monthly)

lemma undated_cum_pct: "cum_pct_col undated_agg = [Fin (2 / 3), Fin 1]"
  by (simp add: cum_pct_col_def cumsum_def undated_agg_def)

lemma steady_groupby: "groupby_sum steady_df = steady_agg"
  by (simp add: groupby_eval steady_df_def steady_agg_def)

lemma steady_monthly:
  "monthly_qty steady_df =
     [((''P1'', (2024, 3)), 10), ((''P1'', (2024, 4)), 10), ((''P2'', (2024, 3)), 10)]"
  by (simp add: monthly_eval steady_df_def)

lemma steady_pivot:
  "pivot_row (monthly_qty steady_df) ''P1'' = [10, 10] \<and>
   pivot_row (monthly_qty steady_df) ''P2'' = [10, 0]"
  by (simp add: steady_monthly pivot_row_def pivot_columns_def)

lemma steady_cv: "cv_series steady_df = [(''P1'', Fin 0), (''P2'', Fin (sqrt 50 / 5))]"
  by (simp add: cv_eval steady_monthly)

lemma steady_cum_pct: "cum_pct_col steady_agg = [Fin (2 / 3), Fin 1]"
  by (simp add: cum_pct_col_def cumsum_def steady_agg_def)

subsection \<open>Cumulative sums and the sorted table\<close>

lemma length_cumsum_from: "length (cumsum_from a xs) = length xs"
  by (induction xs arbitrary: a) auto

lemma length_cum_pct_col: "length (cum_pct_col agg) = length agg"
  by (simp add: cum_pct_col_def cumsum_def length_cumsum_from)






lemma sort_values_result_sum:
  "sort_values_result agg0 agg \<Longrightarrow> sum_list (map agg_sales agg) = sum_list (map agg_sales agg0)"
proof -
  assume "sort_values_result agg0 agg"
  then have "mset (map agg_sales agg) = mset (map agg_sales agg0)"
    by (simp add: sort_values_result_def)
  then show ?thesis by (metis sum_mset_sum_list)
qed


lemma sort_values_result_length: "sort_values_result agg0 agg \<Longrightarrow> length agg = length agg0"
  by (metis sort_values_result_def size_mset)

text \<open>
  Every table has a sorted table in this sense, for one the stable sort by descending
  sales.
\<close>

lemma sort_values_result_exists:
  "sort_values_result agg (sort_key (\<lambda>g. - agg_sales g) agg)"
proof -
  have "sorted (map (\<lambda>g. - agg_sales g) (sort_key (\<lambda>g. - agg_sales g) agg))"
    by (rule sorted_sort_key)
  then have "sorted_wrt (\<lambda>a b. agg_sales b \<le> agg_sales a)
      (sort_key (\<lambda>g. - agg_sales g) agg)"
    by (simp add: sorted_map)
  then show ?thesis by (simp add: sort_values_result_def)
qed

lemma cumsum_from_nonneg_desc:
  "sorted_wrt (\<lambda>a b. b \<le> a) xs \<Longrightarrow> 0 \<le> a \<Longrightarrow> 0 \<le> a + sum_list xs \<Longrightarrow>
   c \<in> set (cumsum_from a xs) \<Longrightarrow> 0 \<le> c"
proof (induction xs arbitrary: a)
  case Nil
  then show ?case by simp
next
  case (Cons x xs)
  have step: "0 \<le> a + x"
  proof (cases "0 \<le> x")
    case True
    with Cons.prems(2) show ?thesis by simp
  next
    case False
    with Cons.prems(1) have "\<forall>y\<in>set xs. y \<le> 0" by auto
    then have "sum_list xs \<le> 0" by (simp add: sum_list_nonpos)
    with Cons.prems(3) show ?thesis by simp
  qed
  from Cons.prems(4) consider "c = a + x" | "c \<in> set (cumsum_from (a + x) xs)" by auto
  then show ?case
  proof cases
    case 1
    with step show ?thesis by simp
  next
    case 2
    moreover from Cons.prems(1) have "sorted_wrt (\<lambda>a b. b \<le> a) xs" by simp
    moreover from Cons.prems(3) have "0 \<le> a + x + sum_list xs" by (simp add: add.assoc)
    ultimately show ?thesis using Cons.IH [of "a + x"] step by blast
  qed
qed

subsection \<open>The rows of the classified table\<close>

lemma classify_rowD:
  assumes "r \<in> set (classify df agg)"
  obtains g cp where "r = classify_row (cv_series df) g cp" "g \<in> set agg"
    "cp \<in> set (cum_pct_col agg)"
proof -
  from assms obtain p where p: "p \<in> set (zip agg (cum_pct_col agg))"
    "r = classify_row (cv_series df) (fst p) (snd p)"
    by (auto simp: classify_def)
  then have "fst p \<in> set agg" "snd p \<in> set (cum_pct_col agg)"
    by (metis prod.collapse set_zip_leftD, metis prod.collapse set_zip_rightD)
  with p(2) show ?thesis by (rule that)
qed

lemma map_ABC_classify: "map ABC (classify df agg) = ABC_col agg"
proof -
  have "map ABC (classify df agg) = map (\<lambda>p. abc_label (snd p)) (zip agg (cum_pct_col agg))"
    by (simp add: classify_def classify_row_def case_prod_unfold)
  also have "\<dots> = map abc_label (map snd (zip agg (cum_pct_col agg)))"
    by simp
  also have "\<dots> = ABC_col agg"
    by (simp add: ABC_col_def length_cum_pct_col del: map_map)
  finally show ?thesis .
qed

lemma length_classify: "length (classify df agg) = length agg"
  by (simp add: classify_def length_cum_pct_col)

lemma scenario_classify:
  "classify scenario_df scenario_agg =
     [\<lparr>row_item_id = ''P1'', row_description = ''bolt'', row_sales = 700, row_qty = 10,
       cum_pct = Fin 0.7, ABC = ''A'', CV = Fin 0, XYZ = ''X'', ABC_XYZ = ''A/X''\<rparr>,
      \<lparr>row_item_id = ''P2'', row_description = ''nut'', row_sales = 200, row_qty = 10,
       cum_pct = Fin 0.9, ABC = ''B'', CV = Fin 0, XYZ = ''X'', ABC_XYZ = ''B/X''\<rparr>,
      \<lparr>row_item_id = ''P3'', row_description = ''washer'', row_sales = 100, row_qty = 10,
       cum_pct = Fin 1, ABC = ''C'', CV = Fin 0, XYZ = ''X'', ABC_XYZ = ''C/X''\<rparr>]"
  unfolding classify_def scenario_cv scenario_cum_pct
  by (simp add: scenario_agg_def classify_row_def abc_label_def xyz_label_def join_CV_def)

lemma abc_label_range: "abc_label x \<in> {''A'', ''B'', ''C''}"
  by (simp add: abc_label_def)

lemma xyz_label_range: "xyz_label x \<in> {''X'', ''Y'', ''Z''}"
  by (simp add: xyz_label_def)

lemma classify_segment: "r \<in> set (classify df agg) \<Longrightarrow> ABC_XYZ r \<in> set all_segments"
proof -
  assume "r \<in> set (classify df agg)"
  then obtain g cp where r: "r = classify_row (cv_series df) g cp"
    by (rule classify_rowD)
  from abc_label_range [of cp] xyz_label_range [of "join_CV (cv_series df) (agg_item_id g)"]
  show ?thesis unfolding r classify_row_def all_segments_def
    by auto
qed

lemma sqrt_50: "5 < sqrt 50"
  by (rule real_less_rsqrt) simp

lemma steady_classify:
  "classify steady_df steady_agg =
     [\<lparr>row_item_id = ''P1'', row_description = ''bolt'', row_sales = 100, row_qty = 20,
       cum_pct = Fin (2 / 3), ABC = ''A'', CV = Fin 0, XYZ = ''X'', ABC_XYZ = ''A/X''\<rparr>,
      \<lparr>row_item_id = ''P2'', row_description = ''nut'', row_sales = 50, row_qty = 10,
       cum_pct = Fin 1, ABC = ''C'', CV = Fin (sqrt 50 / 5), XYZ = ''Z'', ABC_XYZ = ''C/Z''\<rparr>]"
  unfolding classify_def steady_cv steady_cum_pct using sqrt_50
  by (simp add: steady_agg_def classify_row_def abc_label_def xyz_label_def join_CV_def)

subsection \<open>ABC labels\<close>

lemma abc_label_bands:
  "(pf_le x (Fin 0.7) \<longrightarrow> abc_label x = ''A'') \<and>
   (pf_lt (Fin 0.7) x \<and> pf_le x (Fin 0.9) \<longrightarrow> abc_label x = ''B'') \<and>
   (\<not> pf_le x (Fin 0.7) \<and> \<not> (pf_lt (Fin 0.7) x \<and> pf_le x (Fin 0.9)) \<longrightarrow>
      abc_label x = ''C'')"
  by (cases x) (auto simp: abc_label_def)

text \<open>
  Claim C1. For every row of the classified table the ABC label is a function of the
  row's cumulative sales fraction, with closed upper bounds: A when the fraction is at
  most 0.70, B when it is above 0.70 and at most 0.90, C in every other case (a fraction
  above 0.90, an infinity or NaN). A fraction of exactly 0.70 gives A and one of exactly
  0.90 gives B.
\<close>

theorem abc_label_thresholds:
  assumes "r \<in> set (classify df agg)"
  shows "ABC r = abc_label (cum_pct r) \<and>
    (pf_le (cum_pct r) (Fin 0.7) \<longrightarrow> ABC r = ''A'') \<and>
    (pf_lt (Fin 0.7) (cum_pct r) \<and> pf_le (cum_pct r) (Fin 0.9) \<longrightarrow> ABC r = ''B'') \<and>
    (\<not> pf_le (cum_pct r) (Fin 0.7) \<and>
     \<not> (pf_lt (Fin 0.7) (cum_pct r) \<and> pf_le (cum_pct r) (Fin 0.9)) \<longrightarrow> ABC r = ''C'') \<and>
    (cum_pct r = Fin 0.7 \<longrightarrow> ABC r = ''A'') \<and>
    (cum_pct r = Fin 0.9 \<longrightarrow> ABC r = ''B'')"
proof -
  from assms obtain g cp where "r = classify_row (cv_series df) g cp"
    by (rule classify_rowD)
  then have eq: "ABC r = abc_label (cum_pct r)"
    by (simp add: classify_row_def)
  have "abc_label (Fin 0.7) = ''A''" "abc_label (Fin 0.9) = ''B''"
    by (simp_all add: abc_label_def)
  with eq abc_label_bands [of "cum_pct r"] show ?thesis by auto
qed

theorem abc_label_thresholds_witness:
  "cum_pct (classify scenario_df scenario_agg ! 0) = Fin 0.7 \<and>
   ABC (classify scenario_df scenario_agg ! 0) = ''A'' \<and>
   cum_pct (classify scenario_df scenario_agg ! 1) = Fin 0.9 \<and>
   ABC (classify scenario_df scenario_agg ! 1) = ''B'' \<and>
   cum_pct (classify scenario_df scenario_agg ! 2) = Fin 1 \<and>
   ABC (classify scenario_df scenario_agg ! 2) = ''C''"
proof -
  have m: "classify scenario_df scenario_agg ! 0 \<in> set (classify scenario_df scenario_agg)"
    "classify scenario_df scenario_agg ! 1 \<in> set (classify scenario_df scenario_agg)"
    "classify scenario_df scenario_agg ! 2 \<in> set (classify scenario_df scenario_agg)"
    by (simp_all add: length_classify scenario_agg_def)
  from abc_label_thresholds [OF m(1)] abc_label_thresholds [OF m(2)]
    abc_label_thresholds [OF m(3)]
  show ?thesis by (simp add: scenario_classify)
qed

subsection \<open>Cumulative fractions in the range of doubles\<close>

lemma f64_overflow_bounds: "one_e308 < f64_overflow \<and> f64_overflow < 18 * one_e308 / 10"
  by (simp add: f64_overflow_def one_e308_def)


lemma one_e308_large: "10 ^ 6 < one_e308"
  by (simp add: one_e308_def)

lemma f64_in_range: "\<bar>x\<bar> \<le> one_e308 \<Longrightarrow> f64 x = Fin x"
  using f64_overflow_bounds by (auto simp: f64_def)


lemma f64_small: "\<bar>x\<bar> \<le> 10 ^ 6 \<Longrightarrow> f64 x = Fin x"
  using one_e308_large by (intro f64_in_range) linarith














text \<open>
  The sign matters for the order: the cleaning step keeps a negative amount, and with
  item totals 10 and -5 the fractions are 2 and 1.
\<close>

lemma negative_sales_break_order:
  "clean returns_raw = Inr returns_df \<and>
   sort_values_result (groupby_sum returns_df) returns_agg \<and>
   cum_pct_col_f64 returns_agg = [Fin 2, Fin 1] \<and>
   \<not> sorted_wrt pf_le (cum_pct_col_f64 returns_agg)"
proof -
  have "clean returns_raw = Inr returns_df"
    by (simp add: returns_raw_def returns_df_def)
  moreover have "sort_values_result (groupby_sum returns_df) returns_agg"
    unfolding returns_groupby sort_values_result_def by (simp add: returns_agg_def)
  moreover have "cum_pct_col_f64 returns_agg = [Fin 2, Fin 1]"
    by (simp add: cum_pct_col_f64_def cumsum_f64_def sum_f64_def f64_small returns_agg_def)
  ultimately show ?thesis by simp
qed

subsection \<open>A grand total of zero\<close>

lemma abc_label_zero_total: "0 \<le> c \<Longrightarrow> abc_label (pf_div (Fin c) (Fin 0)) = ''C''"
  by (simp add: abc_label_def)

lemma ABC_col_zero_total:
  assumes "sorted_wrt (\<lambda>a b. agg_sales b \<le> agg_sales a) agg"
    and "sum_list (map agg_sales agg) = 0"
  shows "ABC_col agg = replicate (length agg) ''C''"
proof -
  have desc: "sorted_wrt (\<lambda>a b. b \<le> a) (map agg_sales agg)"
    using assms(1) by (simp add: sorted_wrt_map)
  have "\<forall>c\<in>set (cumsum (map agg_sales agg)). 0 \<le> c"
    using cumsum_from_nonneg_desc [OF desc, of 0] assms(2) by (auto simp: cumsum_def)
  then have "\<forall>l\<in>set (ABC_col agg). l = ''C''"
    by (auto simp: ABC_col_def cum_pct_col_def assms(2) abc_label_def)
  moreover have "length (ABC_col agg) = length agg"
    by (simp add: ABC_col_def length_cum_pct_col)
  ultimately show ?thesis by (metis replicate_eqI)
qed

text \<open>
  Claim C5. When the grand total of sales is 0 the division yields NaN or an infinity
  and raises nothing; every item of the aggregate table gets a row, and every row gets
  the label C. This covers the table whose items all have zero sales, and also a table
  whose positive and negative totals cancel.
\<close>

theorem zero_total_all_C:
  assumes "sort_values_result (groupby_sum df) agg"
    and "sum_list (map agg_sales (groupby_sum df)) = 0"
  shows "length (classify df agg) = length (groupby_sum df) \<and>
         map ABC (classify df agg) = replicate (length (groupby_sum df)) ''C''"
proof -
  from assms have "sum_list (map agg_sales agg) = 0"
    by (simp add: sort_values_result_sum)
  moreover from assms(1) have "sorted_wrt (\<lambda>a b. agg_sales b \<le> agg_sales a) agg"
    by (simp add: sort_values_result_def)
  ultimately have "ABC_col agg = replicate (length agg) ''C''"
    by (rule ABC_col_zero_total [rotated])
  with assms(1) show ?thesis
    by (simp add: map_ABC_classify length_classify sort_values_result_length)
qed

theorem zero_total_all_C_witness:
  "clean zero_raw = Inr zero_df \<and>
   sum_list (map agg_sales (groupby_sum zero_df)) = 0 \<and>
   map ABC (classify zero_df zero_agg) = [''C'', ''C'']"
proof -
  have c: "clean zero_raw = Inr zero_df"
    by (simp add: zero_raw_def zero_df_def)
  have s: "sort_values_result (groupby_sum zero_df) zero_agg"
    unfolding zero_groupby sort_values_result_def by (simp add: zero_agg_def)
  have t: "sum_list (map agg_sales (groupby_sum zero_df)) = 0"
    unfolding zero_groupby by (simp add: zero_agg_def)
  have "length (groupby_sum zero_df) = 2"
    unfolding zero_groupby by (simp add: zero_agg_def)
  with zero_total_all_C [OF s t] c t show ?thesis
    by (simp add: numeral_2_eq_2)
qed

subsection \<open>XYZ labels\<close>

lemma sum_list_replicate_real: "sum_list (replicate n (c::real)) = real n * c"
  by (induction n) (simp_all add: algebra_simps)

lemma cv_of_row_constant:
  assumes "0 < n" and "c \<noteq> 0"
  shows "cv_of_row (replicate n c) = Fin 0"
proof -
  have m: "sum_list (replicate n c) / real n = c"
    using assms(1) by (simp add: sum_list_replicate_real)
  have mean: "mean (replicate n c) = Fin c"
    using assms(1) by (simp add: mean_def m)
  show ?thesis
  proof (cases "n \<le> 1")
    case True
    then show ?thesis by (simp add: cv_of_row_def std_def)
  next
    case False
    have "map (\<lambda>x. (x - sum_list (replicate n c) / real n)\<^sup>2) (replicate n c) = replicate n 0"
      by (simp add: m)
    then have "std (replicate n c) = Fin 0"
      using False by (simp add: std_def sum_list_replicate_real del: map_replicate)
    with mean assms(2) show ?thesis by (simp add: cv_of_row_def)
  qed
qed

lemma map_of_cv_series:
  "map_of (cv_series df) i =
     (if i \<in> set (pivot_index (monthly_qty df))
      then Some (cv_of_row (pivot_row (monthly_qty df) i)) else None)"
  by (simp add: cv_series_def Let_def map_of_map_restrict restrict_map_def)

lemma pivot_cell_in_index:
  assumes "map_of mq (i, m) = Some q"
  shows "i \<in> set (pivot_index mq)"
proof -
  from assms have "((i, m), q) \<in> set mq" by (rule map_of_SomeD)
  then have "fst (fst ((i, m), q)) \<in> (\<lambda>e. fst (fst e)) ` set mq" by (rule imageI)
  then show ?thesis by (simp add: pivot_index_def)
qed

lemma constant_row_CV:
  assumes "pivot_row (monthly_qty df) i \<noteq> []"
    and "\<forall>q\<in>set (pivot_row (monthly_qty df) i). q = c"
    and "c \<noteq> 0"
  shows "join_CV (cv_series df) i = Fin 0"
proof -
  let ?mq = "monthly_qty df"
  let ?n = "length (pivot_row ?mq i)"
  have n: "0 < ?n" using assms(1) by simp
  have row: "pivot_row ?mq i = replicate ?n c"
    using assms(2) by (simp add: replicate_eqI)
  from assms(1) obtain m where m: "m \<in> set (pivot_columns ?mq)"
    by (cases "pivot_columns ?mq") (auto simp: pivot_row_def)
  then have "(case map_of ?mq (i, m) of None \<Rightarrow> 0 | Some q \<Rightarrow> q) \<in> set (pivot_row ?mq i)"
    by (simp add: pivot_row_def)
  with assms(2,3) have "(case map_of ?mq (i, m) of None \<Rightarrow> 0 | Some q \<Rightarrow> q) \<noteq> 0"
    by auto
  then obtain q where "map_of ?mq (i, m) = Some q"
    by (cases "map_of ?mq (i, m)") auto
  then have "i \<in> set (pivot_index ?mq)" by (rule pivot_cell_in_index)
  then have "join_CV (cv_series df) i = cv_of_row (pivot_row ?mq i)"
    by (simp add: join_CV_def map_of_cv_series)
  also have "\<dots> = cv_of_row (replicate ?n c)" using row by simp
  also have "\<dots> = Fin 0" using n assms(3) by (rule cv_of_row_constant)
  finally show ?thesis .
qed

lemma xyz_label_bands:
  "(pf_le x (Fin 0.5) \<longrightarrow> xyz_label x = ''X'') \<and>
   (pf_lt (Fin 0.5) x \<and> pf_le x (Fin 1.0) \<longrightarrow> xyz_label x = ''Y'') \<and>
   (\<not> pf_le x (Fin 0.5) \<and> \<not> (pf_lt (Fin 0.5) x \<and> pf_le x (Fin 1.0)) \<longrightarrow>
      xyz_label x = ''Z'')"
  by (cases x) (auto simp: xyz_label_def)

text \<open>
  Claim C2, as stated: an item whose monthly quantity is constant and non-zero across
  the months it is observed in has CV 0 and label X. The pivot fills a month in which
  the item has no row with 0. P2 has rows in one month only, with quantity 10, and the
  table has a second month from the rows of P1: the row of P2 in the pivot is 10, 0,
  its CV is above 1 and its label is Z.
\<close>

theorem constant_over_own_months_gets_Z:
  "clean steady_raw = Inr steady_df \<and>
   sort_values_result (groupby_sum steady_df) steady_agg \<and>
   map snd (filter (\<lambda>e. fst (fst e) = ''P2'') (monthly_qty steady_df)) = [10] \<and>
   pivot_row (monthly_qty steady_df) ''P2'' = [10, 0] \<and>
   row_item_id (classify steady_df steady_agg ! 1) = ''P2'' \<and>
   CV (classify steady_df steady_agg ! 1) = Fin (sqrt 50 / 5) \<and>
   pf_lt (Fin 1) (CV (classify steady_df steady_agg ! 1)) \<and>
   XYZ (classify steady_df steady_agg ! 1) = ''Z''"
proof -
  have "clean steady_raw = Inr steady_df"
    by (simp add: steady_raw_def steady_df_def)
  moreover have "sort_values_result (groupby_sum steady_df) steady_agg"
    unfolding steady_groupby sort_values_result_def by (simp add: steady_agg_def)
  moreover have "map snd (filter (\<lambda>e. fst (fst e) = ''P2'') (monthly_qty steady_df)) = [10]"
    by (simp add: steady_monthly)
  ultimately show ?thesis
    using sqrt_50 by (simp add: steady_classify steady_pivot)
qed

text \<open>
  Claim C2, amended: for every row of the classified table the XYZ label is a function
  of the row's CV, with closed upper bounds: X when the CV is at most 0.5, Y when it is
  above 0.5 and at most 1.0, Z in every other case. The months an item is measured over
  are the columns of the pivot, that is every month in which some item has a row, and
  the item counts 0 in a month in which it has none. An item whose row of the pivot is
  not empty and holds one and the same non-zero quantity in every month has CV 0 and
  label X.
\<close>

theorem xyz_label_thresholds:
  assumes "r \<in> set (classify df agg)"
  shows "XYZ r = xyz_label (CV r) \<and>
    (pf_le (CV r) (Fin 0.5) \<longrightarrow> XYZ r = ''X'') \<and>
    (pf_lt (Fin 0.5) (CV r) \<and> pf_le (CV r) (Fin 1.0) \<longrightarrow> XYZ r = ''Y'') \<and>
    (\<not> pf_le (CV r) (Fin 0.5) \<and>
     \<not> (pf_lt (Fin 0.5) (CV r) \<and> pf_le (CV r) (Fin 1.0)) \<longrightarrow> XYZ r = ''Z'') \<and>
    (pivot_row (monthly_qty df) (row_item_id r) \<noteq> [] \<and>
     (\<forall>q\<in>set (pivot_row (monthly_qty df) (row_item_id r)). q = c) \<and> c \<noteq> 0 \<longrightarrow>
       CV r = Fin 0 \<and> XYZ r = ''X'')"
proof -
  from assms obtain g cp where r: "r = classify_row (cv_series df) g cp"
    by (rule classify_rowD)
  then have eq: "XYZ r = xyz_label (CV r)"
    and cv: "CV r = join_CV (cv_series df) (row_item_id r)"
    by (simp_all add: classify_row_def)
  have "CV r = Fin 0 \<and> XYZ r = ''X''"
    if "pivot_row (monthly_qty df) (row_item_id r) \<noteq> []"
      and "\<forall>q\<in>set (pivot_row (monthly_qty df) (row_item_id r)). q = c" and "c \<noteq> 0"
  proof -
    from that have "CV r = Fin 0" unfolding cv by (rule constant_row_CV)
    with eq show ?thesis by (simp add: xyz_label_def)
  qed
  with eq xyz_label_bands [of "CV r"] show ?thesis by auto
qed

theorem xyz_label_thresholds_witness:
  "pivot_row (monthly_qty steady_df) ''P1'' = [10, 10] \<and>
   row_item_id (classify steady_df steady_agg ! 0) = ''P1'' \<and>
   CV (classify steady_df steady_agg ! 0) = Fin 0 \<and>
   XYZ (classify steady_df steady_agg ! 0) = ''X''"
proof -
  have m: "classify steady_df steady_agg ! 0 \<in> set (classify steady_df steady_agg)"
    by (simp add: length_classify steady_agg_def)
  from xyz_label_thresholds [OF m, of 10] show ?thesis
    by (simp add: steady_classify steady_pivot)
qed

lemma join_CV_missing:
  "map_of cv i = None \<Longrightarrow> join_CV cv i = NaN \<and> xyz_label (join_CV cv i) = ''Z''"
  by (simp add: join_CV_def xyz_label_def)

text \<open>
  Claim C6 says that an item of the aggregate table that is missing from the monthly
  series gets CV 0 and the label X. The script fills the missing values of
  \<^verbatim>\<open>cv\<close> before the join, so the value the join leaves missing stays NaN, and
  NaN fails both comparisons of the XYZ rule. On the table whose item P1 has an empty
  date cell, P1 is not in the monthly series and ends with CV NaN and label Z.
\<close>

theorem undated_item_gets_Z:
  "clean undated_raw = Inr undated_df \<and>
   sort_values_result (groupby_sum undated_df) undated_agg \<and>
   map_of (cv_series undated_df) ''P1'' = None \<and>
   map row_item_id (classify undated_df undated_agg) = [''P2'', ''P1''] \<and>
   map CV (classify undated_df undated_agg) = [Fin 0, NaN] \<and>
   map XYZ (classify undated_df undated_agg) = [''X'', ''Z''] \<and>
   map ABC_XYZ (classify undated_df undated_agg) = [''A/X'', ''C/Z'']"
proof -
  have "clean undated_raw = Inr undated_df"
    by (simp add: undated_raw_def undated_df_def)
  moreover have "sort_values_result (groupby_sum undated_df) undated_agg"
    unfolding undated_groupby sort_values_result_def by (simp add: undated_agg_def)
  moreover have "classify undated_df undated_agg =
     [\<lparr>row_item_id = ''P2'', row_description = ''nut'', row_sales = 20, row_qty = 5,
       cum_pct = Fin (2 / 3), ABC = ''A'', CV = Fin 0, XYZ = ''X'', ABC_XYZ = ''A/X''\<rparr>,
      \<lparr>row_item_id = ''P1'', row_description = ''bolt'', row_sales = 10, row_qty = 5,
       cum_pct = Fin 1, ABC = ''C'', CV = NaN, XYZ = ''Z'', ABC_XYZ = ''C/Z''\<rparr>]"
    unfolding classify_def undated_cv undated_cum_pct
    by (simp add: undated_agg_def classify_row_def abc_label_def xyz_label_def join_CV_def)
  ultimately show ?thesis by (simp add: undated_cv)
qed

subsection \<open>Segment filter\<close>

text \<open>
  Claim C9. Filtering a classified table with all nine segments returns the table
  unchanged; filtering any table with the empty selection returns no rows; and the
  result of any filter consists of rows of the table, unchanged and in their order.
\<close>

theorem segment_filter_subset:
  "segment_filter all_segments (classify df agg) = classify df agg \<and>
   segment_filter [] t = [] \<and>
   subseq (segment_filter selected_abcxyz t) t"
  by (simp add: segment_filter_def classify_segment)

end
